theory Spec2Isabelle
  imports Main
begin

section \<open>StreamAbortManager (src/unnamed/part_001)\<close>

text \<open>
  The class holds one private field, \<^verbatim>\<open>controllers: Map<string, AbortController>\<close>.
  A JavaScript \<^verbatim>\<open>Map\<close> iterates in insertion order and holds each key once, so it is
  modelled as an association list in insertion order. An \<^verbatim>\<open>AbortController\<close> is an
  object shared with whoever received it from \<^verbatim>\<open>create\<close>; it is modelled as a reference
  (a natural number) into a store that records which controllers have been aborted.
\<close>

type_synonym controllerRef = nat

text \<open>\<^verbatim>\<open>Map.prototype.get\<close>: the value stored under the key, or \<^verbatim>\<open>undefined\<close>.\<close>

fun map_get :: "(string \<times> 'v) list \<Rightarrow> string \<Rightarrow> 'v option" where
  "map_get [] k = None"
| "map_get ((k', v) # rest) k = (if k' = k then Some v else map_get rest k)"

text \<open>
  \<^verbatim>\<open>Map.prototype.set\<close>: an existing key keeps its position and gets the new value,
  a new key is appended.
\<close>

fun map_set :: "string \<Rightarrow> 'v \<Rightarrow> (string \<times> 'v) list \<Rightarrow> (string \<times> 'v) list" where
  "map_set k v [] = [(k, v)]"
| "map_set k v ((k', v') # rest) =
     (if k' = k then (k, v) # rest else (k', v') # map_set k v rest)"

text \<open>\<^verbatim>\<open>Map.prototype.delete\<close>: removes the entry of the key, if there is one.\<close>

fun map_delete :: "string \<Rightarrow> (string \<times> 'v) list \<Rightarrow> (string \<times> 'v) list" where
  "map_delete k [] = []"
| "map_delete k ((k', v) # rest) =
     (if k' = k then map_delete k rest else (k', v) # map_delete k rest)"

record StreamAbortManager =
  controllers :: "(string \<times> controllerRef) list"
  aborted :: "controllerRef set"
  nextRef :: controllerRef

text \<open>The invariant of a JavaScript \<^verbatim>\<open>Map\<close>: no key occurs twice.\<close>

definition map_ok :: "StreamAbortManager \<Rightarrow> bool" where
  "map_ok m = distinct (map fst (controllers m))"

definition newManager :: StreamAbortManager where
  "newManager = \<lparr>controllers = [], aborted = {}, nextRef = 0\<rparr>"

text \<open>
  \<^verbatim>\<open>create(conversationId)\<close>: allocates a fresh controller, stores it under the key
  (replacing the entry of that key without aborting the old controller), returns it.
\<close>

definition create :: "string \<Rightarrow> StreamAbortManager \<Rightarrow> controllerRef \<times> StreamAbortManager" where
  "create conversationId m =
     (let controller = nextRef m
      in (controller,
          m\<lparr>controllers := map_set conversationId controller (controllers m),
            nextRef := Suc controller\<rparr>))"

definition get :: "string \<Rightarrow> StreamAbortManager \<Rightarrow> controllerRef option" where
  "get conversationId m = map_get (controllers m) conversationId"

text \<open>
  \<^verbatim>\<open>cancel(conversationId)\<close>: an object is always truthy, so \<^verbatim>\<open>if (controller)\<close> is the
  test that the key has an entry. \<^verbatim>\<open>controller.abort()\<close> marks the controller; listeners
  of its signal are taken not to call back into the manager.
\<close>

definition cancel :: "string \<Rightarrow> StreamAbortManager \<Rightarrow> bool \<times> StreamAbortManager" where
  "cancel conversationId m =
     (case map_get (controllers m) conversationId of
        Some controller \<Rightarrow>
          (True,
           m\<lparr>aborted := insert controller (aborted m),
             controllers := map_delete conversationId (controllers m)\<rparr>)
      | None \<Rightarrow> (False, m))"

definition delete :: "string \<Rightarrow> StreamAbortManager \<Rightarrow> StreamAbortManager" where
  "delete conversationId m = m\<lparr>controllers := map_delete conversationId (controllers m)\<rparr>"

definition size_of :: "StreamAbortManager \<Rightarrow> nat" where
  "size_of m = length (controllers m)"

text \<open>
  \<^verbatim>\<open>cancelAll(view?)\<close>. The optional view is the external notification sink. Its
  \<^verbatim>\<open>postMessage\<close> is code outside the repository, so it is a parameter: a step function
  on a sink state of any type that, given the conversation id of the
  \<^verbatim>\<open>{type: 'streamChunk', data: {conversationId, type: 'cancelled'}}\<close> message, returns the
  next sink state and whether the call threw. The \<^verbatim>\<open>try\<close>/\<^verbatim>\<open>catch\<close> of the source
  swallows the throw, so the loop goes on either way. The loop runs over the entries in
  insertion order; listeners of the abort signal are taken not to call back into the
  manager while the loop runs.
\<close>

type_synonym 'w postMessage = "string \<Rightarrow> 'w \<Rightarrow> 'w \<times> bool"

fun cancelAll_loop ::
  "('w postMessage) option \<Rightarrow> (string \<times> controllerRef) list \<Rightarrow>
   controllerRef set \<times> 'w \<Rightarrow> controllerRef set \<times> 'w" where
  "cancelAll_loop view [] acc = acc"
| "cancelAll_loop view ((conversationId, controller) # rest) (ab, w) =
     cancelAll_loop view rest
       (insert controller ab,
        (case view of None \<Rightarrow> w | Some post \<Rightarrow> fst (post conversationId w)))"

definition cancelAll ::
  "('w postMessage) option \<Rightarrow> 'w \<Rightarrow> StreamAbortManager \<Rightarrow> StreamAbortManager \<times> 'w" where
  "cancelAll view w m =
     (let (ab, w') = cancelAll_loop view (controllers m) (aborted m, w)
      in (m\<lparr>aborted := ab, controllers := []\<rparr>, w'))"

text \<open>Inputs for the examples: two tracked conversations, and a sink that throws on one.\<close>

definition twoStreams :: StreamAbortManager where
  "twoStreams = \<lparr>controllers = [(''conv_a'', 0), (''conv_b'', 1)], aborted = {}, nextRef = 2\<rparr>"

definition throwingSink :: "(string list) postMessage" where
  "throwingSink conversationId posted =
     (if conversationId = ''conv_a'' then (posted, True)
      else (posted @ [conversationId], False))"

section \<open>Chat store: data (frontend/src/stores/chat)\<close>

text \<open>
  The type declarations of the store (\<^verbatim>\<open>types.ts\<close>) are not among the source files. The
  records below hold the fields that the modelled functions read and write, with the
  types their uses show. A \<^verbatim>\<open>Ref\<close> of the store (\<^verbatim>\<open>state.x.value\<close>) is a field of the
  state record; \<^verbatim>\<open>null\<close> and \<^verbatim>\<open>undefined\<close> are \<open>None\<close>. Strings are lists of code
  units below 256.
\<close>

datatype Role = User | Assistant

record Attachment =
  att_id :: string
  att_name :: string
  att_type :: string
  att_size :: nat
  att_mimeType :: string
  att_data :: "string option"
  att_thumbnail :: "string option"

record AttachmentData =
  ad_id :: string
  ad_name :: string
  ad_type :: string
  ad_size :: nat
  ad_mimeType :: string
  ad_data :: string
  ad_thumbnail :: "string option"

record ContentPart =
  part_text :: string

record MessageMetadata =
  modelVersion :: string

record Message =
  msg_id :: string
  role :: Role
  content :: string
  timestamp :: nat
  attachments :: "Attachment list option"
  streaming :: "bool option"
  parts :: "ContentPart list option"
  metadata :: "MessageMetadata option"
  isFunctionResponse :: "bool option"

record Conversation =
  conv_id :: string
  title :: string
  createdAt :: nat
  updatedAt :: nat
  messageCount :: nat
  preview :: "string option"
  isPersisted :: bool
  workspaceUri :: "string option"

text \<open>
  Modelled from the spec: \<^verbatim>\<open>CheckpointRecord\<close> is declared in \<^verbatim>\<open>types.ts\<close>, which is
  not among the source files. The spec gives it as a snapshot reference (conversation id, message index,
  metadata).
\<close>

record CheckpointRecord =
  cp_id :: string
  cp_conversationId :: string
  cp_messageIndex :: int

record ErrorInfo =
  err_code :: string
  err_message :: string

text \<open>A value thrown by an awaited call; the handlers read its \<^verbatim>\<open>code\<close> and \<^verbatim>\<open>message\<close>.\<close>

record JsError =
  thrown_code :: "string option"
  thrown_message :: "string option"

record ChatStoreState =
  conversations :: "Conversation list"
  currentConversationId :: "string option"
  currentWorkspaceUri :: "string option"
  configId :: string
  allMessages :: "Message list"
  checkpoints :: "CheckpointRecord list"
  isLoading :: bool
  isStreaming :: bool
  isWaitingForResponse :: bool
  streamingMessageId :: "string option"
  error :: "ErrorInfo option"
  toolCallBuffer :: string
  inToolCall :: "string option"
  processedDiffTools :: "(string \<times> string) list"
  handledDiffIds :: "string list"
  handledFilePaths :: "(string \<times> string) list"
  pendingDiffToolIds :: "string list"
  pendingAnnotation :: string

text \<open>
  What \<^verbatim>\<open>sendToExtension(type, data)\<close> is called with. The transport is outside the
  repository: a call is recorded as a request, and whether its promise resolves or
  rejects is an input of each function. Other tasks are taken not to touch the store
  while such a call is awaited.
\<close>

datatype Request =
    CreateConversation string string "string option"
  | ChatStream "string option" string string "AttachmentData list option"
  | DeleteMessage "string option" int
  | RetryStream "string option" string
  | EditAndRetryStream "string option" int string "AttachmentData list option" string

text \<open>
  The inputs a call reads from outside the store: the identifiers \<^verbatim>\<open>generateId()\<close> and
  \<^verbatim>\<open>createAndPersistConversation\<close> make up, the clock (\<^verbatim>\<open>Date.now()\<close>, one reading per
  call), and for each awaited request whether it rejects and with which value.
\<close>

record Env =
  convIdSuffix :: string
  userMessageId :: string
  assistantMessageId :: string
  now :: nat
  createRejects :: "JsError option"
  deleteRejects :: "JsError option"
  dispatchRejects :: "JsError option"

text \<open>How a call ends: it returns, or an uncaught \<^verbatim>\<open>TypeError\<close> leaves it.\<close>

datatype Completion = Returned | ThrewTypeError

section \<open>JavaScript helpers\<close>

text \<open>Truthiness of a \<^verbatim>\<open>string | null\<close>: \<^verbatim>\<open>null\<close> and the empty string are falsy.\<close>

definition truthy :: "string option \<Rightarrow> bool" where
  "truthy v = (case v of None \<Rightarrow> False | Some s \<Rightarrow> s \<noteq> [])"

text \<open>\<^verbatim>\<open>a || b\<close> on strings.\<close>

definition orElse :: "string option \<Rightarrow> string \<Rightarrow> string" where
  "orElse v d = (case v of None \<Rightarrow> d | Some s \<Rightarrow> if s = [] then d else s)"

text \<open>
  \<^verbatim>\<open>String.prototype.trim\<close> removes white space and line terminators from both ends; of
  those, the code units below 256 are tab, line feed, vertical tab, form feed, carriage
  return, space and no-break space.
\<close>

definition is_space :: "char \<Rightarrow> bool" where
  "is_space c = (c \<in> set [CHR 0x09, CHR 0x0A, CHR 0x0B, CHR 0x0C, CHR 0x0D, CHR 0x20, CHR 0xA0])"

definition trim :: "string \<Rightarrow> string" where
  "trim s = rev (dropWhile is_space (rev (dropWhile is_space s)))"

text \<open>\<^verbatim>\<open>!attachments || attachments.length === 0\<close>\<close>

definition noAttachments :: "Attachment list option \<Rightarrow> bool" where
  "noAttachments a = (case a of None \<Rightarrow> True | Some xs \<Rightarrow> xs = [])"

text \<open>\<^verbatim>\<open>attachments && attachments.length > 0 ? attachments : undefined\<close>\<close>

definition attachmentsOrUndefined :: "Attachment list option \<Rightarrow> Attachment list option" where
  "attachmentsOrUndefined a = (if noAttachments a then None else a)"

definition toAttachmentData :: "Attachment \<Rightarrow> AttachmentData" where
  "toAttachmentData att =
     \<lparr>ad_id = att_id att, ad_name = att_name att, ad_type = att_type att,
      ad_size = att_size att, ad_mimeType = att_mimeType att,
      ad_data = orElse (att_data att) [], ad_thumbnail = att_thumbnail att\<rparr>"

definition attachmentData :: "Attachment list option \<Rightarrow> AttachmentData list option" where
  "attachmentData a =
     (case attachmentsOrUndefined a of None \<Rightarrow> None | Some xs \<Rightarrow> Some (map toAttachmentData xs))"

text \<open>
  \<^verbatim>\<open>const conv = list.find(p); if (conv) { ...assignments to conv... }\<close>: the first
  element that satisfies the test is updated in place.
\<close>

fun updateFirst :: "('a \<Rightarrow> bool) \<Rightarrow> ('a \<Rightarrow> 'a) \<Rightarrow> 'a list \<Rightarrow> 'a list" where
  "updateFirst P f [] = []"
| "updateFirst P f (x # xs) = (if P x then f x # xs else x # updateFirst P f xs)"

section \<open>Checkpoint truncation\<close>

text \<open>
  Modelled from the spec: \<^verbatim>\<open>clearCheckpointsFromIndex\<close> is imported from
  \<^verbatim>\<open>./checkpointActions\<close>, which is not among the source files. The spec has the
  checkpoint list truncated so that all checkpoints at or after a message index are
  removed.
\<close>

definition clearCheckpointsFromIndex :: "ChatStoreState \<Rightarrow> int \<Rightarrow> ChatStoreState" where
  "clearCheckpointsFromIndex s fromIndex =
     s\<lparr>checkpoints := filter (\<lambda>cp. cp_messageIndex cp < fromIndex) (checkpoints s)\<rparr>"

section \<open>Message actions (frontend/src/stores/chat/messageActions.ts)\<close>

text \<open>The streaming placeholder that every turn pushes before its request goes out.\<close>

definition assistantPlaceholder :: "Env \<Rightarrow> string \<Rightarrow> Message" where
  "assistantPlaceholder env currentModelName =
     \<lparr>msg_id = assistantMessageId env, role = Assistant, content = [], timestamp = now env,
      attachments = None, streaming = Some True, parts = None,
      metadata = Some \<lparr>modelVersion = currentModelName\<rparr>, isFunctionResponse = None\<rparr>"

text \<open>
  The \<^verbatim>\<open>catch\<close> block the dispatching functions share, with their default code and
  message: it acts only while \<^verbatim>\<open>isStreaming\<close> still holds.
\<close>

definition catchDispatch :: "string \<Rightarrow> string \<Rightarrow> JsError \<Rightarrow> ChatStoreState \<Rightarrow> ChatStoreState" where
  "catchDispatch defaultCode defaultMessage err s =
     (if isStreaming s
      then s\<lparr>error := Some \<lparr>err_code = orElse (thrown_code err) defaultCode,
                             err_message = orElse (thrown_message err) defaultMessage\<rparr>,
             streamingMessageId := None,
             isStreaming := False,
             isWaitingForResponse := False\<rparr>
      else s)"

text \<open>\<^verbatim>\<open>createAndPersistConversation\<close> (src/unnamed/part_007).\<close>

definition createAndPersistConversation ::
  "Env \<Rightarrow> ChatStoreState \<Rightarrow> string \<Rightarrow> string option \<times> ChatStoreState \<times> Request list" where
  "createAndPersistConversation env s firstMessage =
     (let newId = ''conv_'' @ convIdSuffix env;
          newTitle = take 30 firstMessage @ (if length firstMessage > 30 then ''...'' else []);
          uri = (if truthy (currentWorkspaceUri s) then currentWorkspaceUri s else None);
          req = CreateConversation newId newTitle uri
      in case createRejects env of
           Some err \<Rightarrow> (None, s, [req])
         | None \<Rightarrow>
             (Some newId,
              s\<lparr>conversations :=
                  \<lparr>conv_id = newId, title = newTitle, createdAt = now env, updatedAt = now env,
                   messageCount = 0, preview = None, isPersisted = True, workspaceUri = uri\<rparr>
                  # conversations s,
                currentConversationId := Some newId\<rparr>,
              [req]))"

text \<open>
  \<^verbatim>\<open>sendMessage\<close>, lines 45 to 95: the part of the \<^verbatim>\<open>try\<close> block after the conversation
  exists. It returns what the awaited dispatch threw, if it did.
\<close>

definition sendMessage_dispatch ::
  "Env \<Rightarrow> string \<Rightarrow> string \<Rightarrow> Attachment list option \<Rightarrow> ChatStoreState \<Rightarrow>
   JsError option \<times> ChatStoreState \<times> Request list" where
  "sendMessage_dispatch env currentModelName messageText atts s =
     (let userMessage =
            \<lparr>msg_id = userMessageId env, role = User, content = messageText,
             timestamp = now env, attachments = attachmentsOrUndefined atts,
             streaming = None, parts = None, metadata = None,
             isFunctionResponse = None\<rparr>;
          s1 = s\<lparr>allMessages := allMessages s @ [userMessage]\<rparr>;
          s2 = s1\<lparr>allMessages := allMessages s1 @ [assistantPlaceholder env currentModelName]\<rparr>;
          s3 = s2\<lparr>streamingMessageId := Some (assistantMessageId env)\<rparr>;
          s4 = s3\<lparr>conversations :=
                  updateFirst (\<lambda>c. Some (conv_id c) = currentConversationId s3)
                    (\<lambda>c. c\<lparr>updatedAt := now env,
                            messageCount := length (allMessages s3),
                            preview := Some (take 50 messageText)\<rparr>)
                    (conversations s3)\<rparr>;
          s5 = s4\<lparr>toolCallBuffer := [], inToolCall := None\<rparr>;
          req = ChatStream (currentConversationId s5) (configId s5) messageText (attachmentData atts)
      in (dispatchRejects env, s5, [req]))"

text \<open>The whole \<^verbatim>\<open>try\<close> block of \<^verbatim>\<open>sendMessage\<close>.\<close>

definition sendMessage_try ::
  "Env \<Rightarrow> string \<Rightarrow> string \<Rightarrow> Attachment list option \<Rightarrow> ChatStoreState \<Rightarrow>
   JsError option \<times> ChatStoreState \<times> Request list" where
  "sendMessage_try env currentModelName messageText atts s =
     (if \<not> truthy (currentConversationId s)
      then (case createAndPersistConversation env s messageText of
              (newId, s1, reqs) \<Rightarrow>
                if \<not> truthy newId
                then (Some \<lparr>thrown_code = None,
                            thrown_message = Some ''Failed to create conversation''\<rparr>, s1, reqs)
                else (case sendMessage_dispatch env currentModelName messageText atts s1 of
                        (thrown, s2, reqs2) \<Rightarrow> (thrown, s2, reqs @ reqs2)))
      else sendMessage_dispatch env currentModelName messageText atts s)"

definition sendMessage ::
  "Env \<Rightarrow> string \<Rightarrow> ChatStoreState \<Rightarrow> string \<Rightarrow> Attachment list option \<Rightarrow>
   ChatStoreState \<times> Request list" where
  "sendMessage env currentModelName s messageText atts =
     (if trim messageText = [] \<and> noAttachments atts then (s, [])
      else let s1 = s\<lparr>error := None\<rparr>
           in if isWaitingForResponse s1 then (s1, [])
              else let s2 = s1\<lparr>isLoading := True, isStreaming := True,
                              isWaitingForResponse := True\<rparr>
                   in case sendMessage_try env currentModelName messageText atts s2 of
                        (thrown, s3, reqs) \<Rightarrow>
                          (let s4 = (case thrown of
                                       None \<Rightarrow> s3
                                     | Some err \<Rightarrow>
                                         catchDispatch ''SEND_ERROR'' ''Failed to send message'' err s3)
                           in (s4\<lparr>isLoading := False\<rparr>, reqs)))"

text \<open>
  \<^verbatim>\<open>retryFromMessage\<close>. \<^verbatim>\<open>cancelStream\<close> is a callback of the caller; it is a
  parameter, any function on the store. The rejection of the \<^verbatim>\<open>deleteMessage\<close> request is
  caught and logged only, so \<open>deleteRejects\<close> has no effect on the store.
\<close>

definition retryFromMessage ::
  "Env \<Rightarrow> string \<Rightarrow> ChatStoreState \<Rightarrow> int \<Rightarrow> (ChatStoreState \<Rightarrow> ChatStoreState) \<Rightarrow>
   ChatStoreState \<times> Request list" where
  "retryFromMessage env currentModelName s messageIndex cancelStream =
     (if \<not> truthy (currentConversationId s) \<or> length (allMessages s) = 0 then (s, [])
      else if messageIndex < 0 \<or> messageIndex \<ge> int (length (allMessages s)) then (s, [])
      else
        let s1 = (if isStreaming s then cancelStream s else s);
            s2 = s1\<lparr>error := None, isLoading := True, isStreaming := True,
                    isWaitingForResponse := True\<rparr>;
            s3 = s2\<lparr>allMessages := take (nat messageIndex) (allMessages s2)\<rparr>;
            s4 = clearCheckpointsFromIndex s3 messageIndex;
            req1 = DeleteMessage (currentConversationId s4) messageIndex;
            s5 = s4\<lparr>toolCallBuffer := [], inToolCall := None,
                    processedDiffTools := [], handledDiffIds := [], handledFilePaths := [],
                    pendingDiffToolIds := [], pendingAnnotation := []\<rparr>;
            s6 = s5\<lparr>allMessages := allMessages s5 @ [assistantPlaceholder env currentModelName],
                    streamingMessageId := Some (assistantMessageId env)\<rparr>;
            req2 = RetryStream (currentConversationId s6) (configId s6);
            s7 = (case dispatchRejects env of
                    None \<Rightarrow> s6
                  | Some err \<Rightarrow> catchDispatch ''RETRY_ERROR'' ''Retry failed'' err s6)
        in (s7\<lparr>isLoading := False\<rparr>, [req1, req2]))"

text \<open>
  \<^verbatim>\<open>editAndRetry\<close>. The index is checked before \<^verbatim>\<open>cancelStream\<close> is awaited and the
  target message is read after it: when the callback has shortened the list below the
  index, \<^verbatim>\<open>targetMessage\<close> is \<^verbatim>\<open>undefined\<close> and the assignment to its \<^verbatim>\<open>content\<close> throws
  a \<^verbatim>\<open>TypeError\<close> outside any \<^verbatim>\<open>try\<close>.
\<close>

definition editAndRetry ::
  "Env \<Rightarrow> string \<Rightarrow> ChatStoreState \<Rightarrow> int \<Rightarrow> string \<Rightarrow> Attachment list option \<Rightarrow>
   (ChatStoreState \<Rightarrow> ChatStoreState) \<Rightarrow> Completion \<times> ChatStoreState \<times> Request list" where
  "editAndRetry env currentModelName s messageIndex newMessage atts cancelStream =
     (if (trim newMessage = [] \<and> noAttachments atts) \<or> \<not> truthy (currentConversationId s)
      then (Returned, s, [])
      else if messageIndex < 0 \<or> messageIndex \<ge> int (length (allMessages s))
      then (Returned, s, [])
      else
        let s1 = (if isStreaming s then cancelStream s else s);
            s2 = s1\<lparr>error := None, isLoading := True, isStreaming := True,
                    isWaitingForResponse := True\<rparr>
        in if nat messageIndex \<ge> length (allMessages s2) then (ThrewTypeError, s2, [])
           else
             let targetMessage = allMessages s2 ! nat messageIndex;
                 edited = targetMessage\<lparr>content := newMessage,
                                        parts := Some [\<lparr>part_text = newMessage\<rparr>],
                                        attachments := attachmentsOrUndefined atts\<rparr>;
                 s3 = s2\<lparr>allMessages := (allMessages s2)[nat messageIndex := edited]\<rparr>;
                 s4 = s3\<lparr>allMessages := take (nat messageIndex + 1) (allMessages s3)\<rparr>;
                 s5 = clearCheckpointsFromIndex s4 messageIndex;
                 s6 = s5\<lparr>toolCallBuffer := [], inToolCall := None\<rparr>;
                 s7 = s6\<lparr>allMessages := allMessages s6 @ [assistantPlaceholder env currentModelName],
                         streamingMessageId := Some (assistantMessageId env)\<rparr>;
                 req = EditAndRetryStream (currentConversationId s7) messageIndex newMessage
                         (attachmentData atts) (configId s7);
                 s8 = (case dispatchRejects env of
                         None \<Rightarrow> s7
                       | Some err \<Rightarrow>
                           catchDispatch ''EDIT_RETRY_ERROR'' ''Edit and retry failed'' err s7)
             in (Returned, s8\<lparr>isLoading := False\<rparr>, [req]))"

text \<open>
  \<^verbatim>\<open>deleteMessage\<close>. The awaited request either rejects (\<open>Inl\<close>) or resolves with a
  response whose \<^verbatim>\<open>success\<close> field is the boolean (\<open>Inr\<close>).
\<close>

definition deleteMessage ::
  "ChatStoreState \<Rightarrow> int \<Rightarrow> (ChatStoreState \<Rightarrow> ChatStoreState) \<Rightarrow> JsError + bool \<Rightarrow>
   ChatStoreState \<times> Request list" where
  "deleteMessage s targetIndex cancelStream response =
     (if \<not> truthy (currentConversationId s) then (s, [])
      else if targetIndex < 0 \<or> targetIndex \<ge> int (length (allMessages s)) then (s, [])
      else
        let s1 = (if isStreaming s then cancelStream s else s);
            req = DeleteMessage (currentConversationId s1) targetIndex
        in case response of
             Inr success \<Rightarrow>
               if success
               then (clearCheckpointsFromIndex
                       (s1\<lparr>allMessages := take (nat targetIndex) (allMessages s1)\<rparr>) targetIndex,
                     [req])
               else (s1, [req])
           | Inl err \<Rightarrow>
               (s1\<lparr>error := Some \<lparr>err_code = orElse (thrown_code err) ''DELETE_ERROR'',
                                   err_message = orElse (thrown_message err) ''Delete failed''\<rparr>\<rparr>,
                [req]))"

section \<open>Conversation metadata after a turn (src/unnamed/part_007)\<close>

text \<open>
  \<^verbatim>\<open>updateConversationAfterMessage\<close>, as far as the store goes. Its requests are awaited
  inside one \<^verbatim>\<open>try\<close>, and every assignment to the conversation follows the last of them:
  when one rejects (\<open>rejects\<close>) the store is left as it was. \<open>dateNow\<close> is the reading
  of \<^verbatim>\<open>Date.now()\<close>.
\<close>

definition lastUserMsg :: "Message list \<Rightarrow> Message option" where
  "lastUserMsg ms =
     (case rev (filter (\<lambda>m. role m = User \<and> isFunctionResponse m \<noteq> Some True) ms) of
        [] \<Rightarrow> None
      | m # _ \<Rightarrow> Some m)"

definition updateConversationAfterMessage :: "nat \<Rightarrow> bool \<Rightarrow> ChatStoreState \<Rightarrow> ChatStoreState" where
  "updateConversationAfterMessage dateNow rejects s =
     (if \<not> truthy (currentConversationId s) then s
      else if rejects then s
      else s\<lparr>conversations :=
               updateFirst (\<lambda>c. Some (conv_id c) = currentConversationId s)
                 (\<lambda>c. (case lastUserMsg (allMessages s) of
                          None \<Rightarrow> c
                        | Some m \<Rightarrow> c\<lparr>preview := Some (take 50 (content m))\<rparr>)
                       \<lparr>updatedAt := dateNow, messageCount := length (allMessages s)\<rparr>)
                 (conversations s)\<rparr>)"

section \<open>Stream handler (frontend/src/stores/chat/streamHandler.ts)\<close>

text \<open>
  Modelled from the spec: \<^verbatim>\<open>StreamChunk\<close> is declared in \<^verbatim>\<open>types.ts\<close>, which is not
  among the source files. The spec gives it as a tagged variant over eight kinds that carries a conversation
  identifier; a \<^verbatim>\<open>chunk\<close> event carries an incremental fragment and a \<^verbatim>\<open>complete\<close> event
  the final structured content. The optional fields hold objects, and an object is
  truthy whatever it holds: \<^verbatim>\<open>if (chunk.content)\<close> tests that the field is present.
\<close>

datatype ChunkType =
    TChunk | TToolsExecuting | TAwaitingConfirmation | TToolIteration
  | TComplete | TCheckpoints | TCancelled | TError

record Content =
  content_role :: string
  content_parts :: "ContentPart list"

record StreamDelta =
  delta :: "ContentPart list"

record StreamChunk =
  conversationId :: string
  chunk_type :: ChunkType
  chunk :: "StreamDelta option"
  chunk_content :: "Content option"
  chunk_checkpoints :: "CheckpointRecord list option"
  chunk_error :: "ErrorInfo option"

text \<open>
  \<^verbatim>\<open>StreamHandlerContext\<close>: its \<^verbatim>\<open>state\<close> is the store that the model threads through;
  the other three members are callbacks of the caller.
\<close>

type_synonym addCheckpointFn = "CheckpointRecord \<Rightarrow> ChatStoreState \<Rightarrow> ChatStoreState"

record StreamHandlerContext =
  ctx_currentModelName :: string
  ctx_addCheckpoint :: addCheckpointFn
  ctx_updateConversationAfterMessage :: "ChatStoreState \<Rightarrow> ChatStoreState"

text \<open>
  The eight handlers are imported from \<^verbatim>\<open>./streamChunkHandlers\<close>, which is not among
  the source files. \<^verbatim>\<open>handleStreamChunk\<close> only chooses among them, so they are a parameter: a table of
  functions on the store, each with the arguments the source passes.
\<close>

record Handlers =
  handleChunkType :: "StreamChunk \<Rightarrow> ChatStoreState \<Rightarrow> ChatStoreState"
  handleToolsExecuting :: "StreamChunk \<Rightarrow> ChatStoreState \<Rightarrow> ChatStoreState"
  handleAwaitingConfirmation :: "StreamChunk \<Rightarrow> ChatStoreState \<Rightarrow> ChatStoreState"
  handleToolIteration :: "StreamChunk \<Rightarrow> string \<Rightarrow> addCheckpointFn \<Rightarrow> ChatStoreState \<Rightarrow> ChatStoreState"
  handleComplete ::
    "StreamChunk \<Rightarrow> addCheckpointFn \<Rightarrow> (ChatStoreState \<Rightarrow> ChatStoreState) \<Rightarrow>
     ChatStoreState \<Rightarrow> ChatStoreState"
  handleCheckpoints :: "StreamChunk \<Rightarrow> addCheckpointFn \<Rightarrow> ChatStoreState \<Rightarrow> ChatStoreState"
  handleCancelled :: "StreamChunk \<Rightarrow> ChatStoreState \<Rightarrow> ChatStoreState"
  handleError :: "StreamChunk \<Rightarrow> ChatStoreState \<Rightarrow> ChatStoreState"

definition handleStreamChunk ::
  "Handlers \<Rightarrow> StreamChunk \<Rightarrow> StreamHandlerContext \<Rightarrow> ChatStoreState \<Rightarrow> ChatStoreState" where
  "handleStreamChunk H c ctx s =
     (if Some (conversationId c) \<noteq> currentConversationId s then s
      else case chunk_type c of
          TChunk \<Rightarrow>
            if chunk c \<noteq> None \<and> truthy (streamingMessageId s)
            then handleChunkType H c s else s
        | TToolsExecuting \<Rightarrow> handleToolsExecuting H c s
        | TAwaitingConfirmation \<Rightarrow> handleAwaitingConfirmation H c s
        | TToolIteration \<Rightarrow>
            if chunk_content c \<noteq> None
            then handleToolIteration H c (ctx_currentModelName ctx) (ctx_addCheckpoint ctx) s
            else s
        | TComplete \<Rightarrow>
            if chunk_content c \<noteq> None
            then handleComplete H c (ctx_addCheckpoint ctx)
                   (ctx_updateConversationAfterMessage ctx) s
            else s
        | TCheckpoints \<Rightarrow> handleCheckpoints H c (ctx_addCheckpoint ctx) s
        | TCancelled \<Rightarrow> handleCancelled H c s
        | TError \<Rightarrow> handleError H c s)"

text \<open>
  Modelled from the spec: \<^verbatim>\<open>handleComplete\<close> of \<^verbatim>\<open>./streamChunkHandlers\<close>, which is
  not among the source files. The spec has a \<^verbatim>\<open>complete\<close> event finalize the current streaming message with the
  final content, append the checkpoints, clear \<^verbatim>\<open>streamingMessageId\<close>, clear the waiting
  and loading flags, and update the conversation metadata.
\<close>

definition handleComplete_spec ::
  "StreamChunk \<Rightarrow> addCheckpointFn \<Rightarrow> (ChatStoreState \<Rightarrow> ChatStoreState) \<Rightarrow>
   ChatStoreState \<Rightarrow> ChatStoreState" where
  "handleComplete_spec c addCheckpoint updateConversation s =
     (let finalize = (\<lambda>m. if Some (msg_id m) = streamingMessageId s
                           then m\<lparr>streaming := Some False,
                                  parts := (case chunk_content c of
                                              None \<Rightarrow> parts m
                                            | Some final \<Rightarrow> Some (content_parts final))\<rparr>
                           else m);
          s1 = s\<lparr>allMessages := map finalize (allMessages s)\<rparr>;
          s2 = foldl (\<lambda>st cp. addCheckpoint cp st) s1
                 (case chunk_checkpoints c of None \<Rightarrow> [] | Some cps \<Rightarrow> cps);
          s3 = s2\<lparr>streamingMessageId := None, isStreaming := False,
                  isWaitingForResponse := False, isLoading := False\<rparr>
      in updateConversation s3)"

section \<open>Inputs for the examples\<close>

text \<open>
  A handler table for the statements that no handler runs: each of its handlers throws
  the message list away, so a run of any of them shows.
\<close>

definition observingHandlers :: Handlers where
  "observingHandlers =
     \<lparr>handleChunkType = (\<lambda>c s. s\<lparr>allMessages := []\<rparr>),
      handleToolsExecuting = (\<lambda>c s. s\<lparr>allMessages := []\<rparr>),
      handleAwaitingConfirmation = (\<lambda>c s. s\<lparr>allMessages := []\<rparr>),
      handleToolIteration = (\<lambda>c name add s. s\<lparr>allMessages := []\<rparr>),
      handleComplete = (\<lambda>c add upd s. s\<lparr>allMessages := []\<rparr>),
      handleCheckpoints = (\<lambda>c add s. s\<lparr>allMessages := []\<rparr>),
      handleCancelled = (\<lambda>c s. s\<lparr>allMessages := []\<rparr>),
      handleError = (\<lambda>c s. s\<lparr>allMessages := []\<rparr>)\<rparr>"

text \<open>The same table with the handler of \<^verbatim>\<open>complete\<close> events as the spec gives it.\<close>

definition completingHandlers :: Handlers where
  "completingHandlers = observingHandlers\<lparr>handleComplete := handleComplete_spec\<rparr>"

definition exampleContext :: StreamHandlerContext where
  "exampleContext =
     \<lparr>ctx_currentModelName = ''model-x'',
      ctx_addCheckpoint = (\<lambda>cp s. s\<lparr>checkpoints := checkpoints s @ [cp]\<rparr>),
      ctx_updateConversationAfterMessage = updateConversationAfterMessage 2000 False\<rparr>"

definition exampleEnv :: Env where
  "exampleEnv =
     \<lparr>convIdSuffix = ''1700000000000_k3x9qz'', userMessageId = ''u9'', assistantMessageId = ''a9'',
      now = 1000, createRejects = None, deleteRejects = None, dispatchRejects = None\<rparr>"

definition rejectingEnv :: Env where
  "rejectingEnv =
     exampleEnv\<lparr>dispatchRejects := Some \<lparr>thrown_code = None, thrown_message = Some ''offline''\<rparr>\<rparr>"

definition plainMessage :: "string \<Rightarrow> Role \<Rightarrow> string \<Rightarrow> Message" where
  "plainMessage i r body =
     \<lparr>msg_id = i, role = r, content = body, timestamp = 0, attachments = None,
      streaming = None, parts = None, metadata = None, isFunctionResponse = None\<rparr>"

definition checkpointAt :: "string \<Rightarrow> int \<Rightarrow> CheckpointRecord" where
  "checkpointAt i k = \<lparr>cp_id = i, cp_conversationId = ''conv_1'', cp_messageIndex = k\<rparr>"

text \<open>An idle store that shows a conversation of four messages with three checkpoints.\<close>

definition fourMessages :: ChatStoreState where
  "fourMessages =
     \<lparr>conversations =
        [\<lparr>conv_id = ''conv_1'', title = ''hi'', createdAt = 0, updatedAt = 0, messageCount = 4,
          preview = None, isPersisted = True, workspaceUri = None\<rparr>],
      currentConversationId = Some ''conv_1'',
      currentWorkspaceUri = None,
      configId = ''cfg'',
      allMessages =
        [plainMessage ''m0'' User ''hi'', plainMessage ''m1'' Assistant ''hello'',
         plainMessage ''m2'' User ''more'', plainMessage ''m3'' Assistant ''sure''],
      checkpoints = [checkpointAt ''c0'' 0, checkpointAt ''c1'' 1, checkpointAt ''c3'' 3],
      isLoading = False, isStreaming = False, isWaitingForResponse = False,
      streamingMessageId = None, error = None, toolCallBuffer = [], inToolCall = None,
      processedDiffTools = [], handledDiffIds = [], handledFilePaths = [],
      pendingDiffToolIds = [], pendingAnnotation = []\<rparr>"

text \<open>The same store in the middle of a turn: a fifth message is streaming.\<close>

definition midTurn :: ChatStoreState where
  "midTurn =
     fourMessages\<lparr>allMessages := allMessages fourMessages
                                   @ [(plainMessage ''a5'' Assistant ''par'')\<lparr>streaming := Some True\<rparr>],
                  isStreaming := True, isWaitingForResponse := True,
                  streamingMessageId := Some ''a5''\<rparr>"

text \<open>The store in the middle of a turn, with an error on display.\<close>

definition waitingWithError :: ChatStoreState where
  "waitingWithError =
     midTurn\<lparr>error := Some \<lparr>err_code = ''LOAD_ERROR'', err_message = ''Failed to load history''\<rparr>\<rparr>"

text \<open>A store with no conversation yet.\<close>

definition emptyStore :: ChatStoreState where
  "emptyStore =
     fourMessages\<lparr>conversations := [], currentConversationId := None, allMessages := [],
                  checkpoints := []\<rparr>"

text \<open>A \<^verbatim>\<open>complete\<close> event whose content object is present and holds no parts.\<close>

definition emptyComplete :: StreamChunk where
  "emptyComplete =
     \<lparr>conversationId = ''conv_1'', chunk_type = TComplete, chunk = None,
      chunk_content = Some \<lparr>content_role = ''model'', content_parts = []\<rparr>,
      chunk_checkpoints = None, chunk_error = None\<rparr>"

text \<open>A \<^verbatim>\<open>complete\<close> event without a content field, and a \<^verbatim>\<open>chunk\<close> event with a fragment.\<close>

definition bareComplete :: StreamChunk where
  "bareComplete = emptyComplete\<lparr>chunk_content := None\<rparr>"

definition textFragment :: StreamChunk where
  "textFragment =
     \<lparr>conversationId = ''conv_1'', chunk_type = TChunk,
      chunk = Some \<lparr>delta = [\<lparr>part_text = ''late''\<rparr>]\<rparr>,
      chunk_content = None, chunk_checkpoints = None, chunk_error = None\<rparr>"

text \<open>An \<^verbatim>\<open>error\<close> event of another conversation.\<close>

definition foreignError :: StreamChunk where
  "foreignError =
     \<lparr>conversationId = ''conv_2'', chunk_type = TError, chunk = None, chunk_content = None,
      chunk_checkpoints = None,
      chunk_error = Some \<lparr>err_code = ''E'', err_message = ''failed elsewhere''\<rparr>\<rparr>"

text \<open>A \<^verbatim>\<open>cancelStream\<close> callback: it stops the streaming message and clears the flags.\<close>

definition stopStreaming :: "ChatStoreState \<Rightarrow> ChatStoreState" where
  "stopStreaming s =
     s\<lparr>allMessages := map (\<lambda>m. if Some (msg_id m) = streamingMessageId s
                                then m\<lparr>streaming := Some False\<rparr> else m) (allMessages s),
       streamingMessageId := None, isStreaming := False, isWaitingForResponse := False\<rparr>"

section \<open>Properties of the abort manager\<close>

lemma map_get_None_iff: "map_get xs k = None \<longleftrightarrow> k \<notin> fst ` set xs"
  by (induction xs) (force split: if_splits)+

lemma map_delete_keys: "fst ` set (map_delete k xs) = fst ` set xs - {k}"
  by (induction xs) (force split: if_splits)+

lemma map_delete_absent: "k \<notin> fst ` set xs \<Longrightarrow> map_delete k xs = xs"
  by (induction xs) (force split: if_splits)+

lemma length_map_delete_present:
  "distinct (map fst xs) \<Longrightarrow> k \<in> fst ` set xs \<Longrightarrow> Suc (length (map_delete k xs)) = length xs"
proof (induction xs)
  case Nil
  then show ?case by simp
next
  case (Cons p ps)
  obtain k' v where p: "p = (k', v)" by (cases p)
  show ?case
  proof (cases "k' = k")
    case True
    with Cons.prems have "k \<notin> fst ` set ps" by (simp add: p)
    then show ?thesis using True by (simp add: p map_delete_absent)
  next
    case False
    with Cons.prems have "k \<in> fst ` set ps" "distinct (map fst ps)" by (auto simp: p)
    with Cons.IH False show ?thesis by (simp add: p)
  qed
qed

lemma distinct_map_delete: "distinct (map fst xs) \<Longrightarrow> distinct (map fst (map_delete k xs))"
proof (induction xs)
  case Nil
  then show ?case by simp
next
  case (Cons p ps)
  obtain k' v where p: "p = (k', v)" by (cases p)
  from Cons.prems have "k' \<notin> fst ` set (map_delete k ps)"
    by (simp add: p map_delete_keys)
  with Cons show ?case by (simp add: p)
qed

lemma map_get_map_delete: "map_get (map_delete k xs) k' = (if k' = k then None else map_get xs k')"
  by (induction xs) auto

lemma cancelAll_loop_aborted:
  "fst (cancelAll_loop view xs (ab, w)) = ab \<union> snd ` set xs"
proof (induction xs arbitrary: ab w)
  case Nil
  then show ?case by simp
next
  case (Cons p ps)
  obtain k c where p: "p = (k, c)" by (cases p)
  show ?case by (simp add: p Cons.IH)
qed

lemma cancelAll_loop_sink:
  "snd (cancelAll_loop (Some post) xs (ab, w)) = foldl (\<lambda>w' k. fst (post k w')) w (map fst xs)"
proof (induction xs arbitrary: ab w)
  case Nil
  then show ?case by simp
next
  case (Cons p ps)
  obtain k c where p: "p = (k, c)" by (cases p)
  show ?case by (simp add: p Cons.IH)
qed

lemma cancelAll_loop_no_sink: "snd (cancelAll_loop None xs (ab, w)) = w"
proof (induction xs arbitrary: ab)
  case Nil
  then show ?case by simp
next
  case (Cons p ps)
  obtain k c where p: "p = (k, c)" by (cases p)
  show ?case by (simp add: p Cons.IH)
qed

text \<open>
  C5. On a registry that holds each key once, \<^verbatim>\<open>cancel(key)\<close> returns true exactly when
  the key has an entry; then the stored controller is signalled, the entry is gone, the
  size is one less and no other entry changes. On an absent key the registry is returned
  as it was, with false. A second \<^verbatim>\<open>cancel(key)\<close> right after the first returns false
  and changes nothing, so the pair lowers the size by at most one.
\<close>

theorem cancel_found_and_idempotent:
  assumes "map_ok m"
  shows "fst (cancel key m) = (get key m \<noteq> None)
       \<and> (\<forall>c. get key m = Some c \<longrightarrow>
             c \<in> aborted (snd (cancel key m))
           \<and> aborted (snd (cancel key m)) = insert c (aborted m)
           \<and> get key (snd (cancel key m)) = None
           \<and> Suc (size_of (snd (cancel key m))) = size_of m
           \<and> (\<forall>k'. k' \<noteq> key \<longrightarrow> get k' (snd (cancel key m)) = get k' m))
       \<and> (get key m = None \<longrightarrow> snd (cancel key m) = m)
       \<and> fst (cancel key (snd (cancel key m))) = False
       \<and> snd (cancel key (snd (cancel key m))) = snd (cancel key m)
       \<and> size_of m \<le> Suc (size_of (snd (cancel key (snd (cancel key m)))))
       \<and> size_of (snd (cancel key (snd (cancel key m)))) \<le> size_of m
       \<and> map_ok (snd (cancel key m))"
proof (cases "map_get (controllers m) key")
  case None
  then show ?thesis using assms by (simp add: cancel_def get_def)
next
  case (Some c)
  then have present: "key \<in> fst ` set (controllers m)"
    using map_get_None_iff [of "controllers m" key] by simp
  from assms have d: "distinct (map fst (controllers m))" by (simp add: map_ok_def)
  have len: "Suc (length (map_delete key (controllers m))) = length (controllers m)"
    using length_map_delete_present [OF d present] .
  have gone: "map_get (map_delete key (controllers m)) key = None"
    by (simp add: map_get_map_delete)
  have first: "cancel key m = (True, m\<lparr>aborted := insert c (aborted m),
        controllers := map_delete key (controllers m)\<rparr>)"
    using Some by (simp add: cancel_def)
  have second: "cancel key (snd (cancel key m)) = (False, snd (cancel key m))"
    unfolding first using gone by (simp add: cancel_def)
  show ?thesis
    unfolding second unfolding first
    using Some len gone distinct_map_delete [OF d, of key]
    by (simp add: get_def size_of_def map_ok_def map_get_map_delete)
qed

text \<open>Two tracked conversations, the first one cancelled twice.\<close>

theorem cancel_found_and_idempotent_witness:
  "map_ok twoStreams
   \<and> fst (cancel ''conv_a'' twoStreams) = True
   \<and> aborted (snd (cancel ''conv_a'' twoStreams)) = {0}
   \<and> controllers (snd (cancel ''conv_a'' twoStreams)) = [(''conv_b'', 1)]
   \<and> size_of twoStreams = 2
   \<and> size_of (snd (cancel ''conv_a'' twoStreams)) = 1
   \<and> fst (cancel ''conv_a'' (snd (cancel ''conv_a'' twoStreams))) = False
   \<and> size_of (snd (cancel ''conv_a'' (snd (cancel ''conv_a'' twoStreams)))) = 1"
proof -
  have ok: "map_ok twoStreams" by (simp add: map_ok_def twoStreams_def)
  show ?thesis
    using ok cancel_found_and_idempotent [OF ok, of "''conv_a''"]
    by (simp add: cancel_def twoStreams_def size_of_def get_def)
qed

text \<open>
  C6. Whatever the notification sink does (absent, or any step function, throwing on any
  keys), \<^verbatim>\<open>cancelAll\<close> signals every tracked controller and leaves the registry empty,
  size 0. The sink is called once for every key, in order, whether or not an earlier
  call threw.
\<close>

theorem cancelAll_aborts_every_entry:
  "(\<forall>entry \<in> set (controllers m). snd entry \<in> aborted (fst (cancelAll view w m)))
   \<and> aborted (fst (cancelAll view w m)) = aborted m \<union> snd ` set (controllers m)
   \<and> controllers (fst (cancelAll view w m)) = []
   \<and> size_of (fst (cancelAll view w m)) = 0
   \<and> snd (cancelAll view w m) =
       (case view of
          None \<Rightarrow> w
        | Some post \<Rightarrow> foldl (\<lambda>w' k. fst (post k w')) w (map fst (controllers m)))"
proof -
  obtain ab w' where loop: "cancelAll_loop view (controllers m) (aborted m, w) = (ab, w')"
    by (cases "cancelAll_loop view (controllers m) (aborted m, w)")
  have ab: "ab = aborted m \<union> snd ` set (controllers m)"
    using cancelAll_loop_aborted [of view "controllers m" "aborted m" w] loop by simp
  have w': "w' = (case view of None \<Rightarrow> w
        | Some post \<Rightarrow> foldl (\<lambda>w' k. fst (post k w')) w (map fst (controllers m)))"
  proof (cases view)
    case None
    then show ?thesis
      using cancelAll_loop_no_sink [of "controllers m" "aborted m" w] loop by simp
  next
    case (Some post)
    then show ?thesis
      using cancelAll_loop_sink [of post "controllers m" "aborted m" w] loop by simp
  qed
  have res: "cancelAll view w m = (m\<lparr>aborted := ab, controllers := []\<rparr>, w')"
    by (simp add: cancelAll_def loop)
  show ?thesis
    by (simp add: res size_of_def ab w')
qed

text \<open>The sink throws on the first key; the second entry is cancelled and notified.\<close>

theorem cancelAll_aborts_every_entry_witness:
  "aborted (fst (cancelAll (Some throwingSink) [] twoStreams)) = {0, 1}
   \<and> controllers (fst (cancelAll (Some throwingSink) [] twoStreams)) = []
   \<and> size_of (fst (cancelAll (Some throwingSink) [] twoStreams)) = 0
   \<and> snd (cancelAll (Some throwingSink) [] twoStreams) = [''conv_b'']
   \<and> snd (throwingSink ''conv_a'' []) = True"
  using cancelAll_aborts_every_entry [of twoStreams "Some throwingSink" "[]"]
  by (auto simp add: twoStreams_def throwingSink_def)

section \<open>Properties of the stream handler\<close>

text \<open>
  C3. Once \<^verbatim>\<open>streamingMessageId\<close> is cleared, a \<^verbatim>\<open>chunk\<close> event leaves the whole store as it
  is, whatever the handlers would do and whichever conversation it names.
\<close>

theorem stale_chunk_ignored:
  "streamingMessageId s = None \<Longrightarrow> chunk_type c = TChunk \<Longrightarrow> handleStreamChunk H c ctx s = s"
  by (simp add: handleStreamChunk_def truthy_def)

text \<open>
  A fragment that arrives after the turn was stopped, with handlers that would show.
\<close>

theorem stale_chunk_ignored_witness:
  "streamingMessageId (stopStreaming midTurn) = None
   \<and> chunk_type textFragment = TChunk
   \<and> Some (conversationId textFragment) = currentConversationId (stopStreaming midTurn)
   \<and> handleStreamChunk observingHandlers textFragment exampleContext (stopStreaming midTurn)
       = stopStreaming midTurn
   \<and> length (allMessages (stopStreaming midTurn)) = 5"
proof -
  have a: "streamingMessageId (stopStreaming midTurn) = None" by (simp add: stopStreaming_def)
  have b: "chunk_type textFragment = TChunk" by (simp add: textFragment_def)
  show ?thesis
    using a b stale_chunk_ignored [OF a b, of observingHandlers exampleContext]
    by (simp add: stopStreaming_def midTurn_def fourMessages_def textFragment_def)
qed

text \<open>
  C4. An event whose conversation id is not the id of the conversation on display leaves
  the whole store as it is, for every kind of event and whatever the handlers would do.
\<close>

theorem other_conversation_chunk_ignored:
  "Some (conversationId c) \<noteq> currentConversationId s \<Longrightarrow> handleStreamChunk H c ctx s = s"
  by (simp add: handleStreamChunk_def)

text \<open>
  An \<^verbatim>\<open>error\<close> event of another conversation during a turn.
\<close>

theorem other_conversation_chunk_ignored_witness:
  "Some (conversationId foreignError) \<noteq> currentConversationId midTurn
   \<and> handleStreamChunk observingHandlers foreignError exampleContext midTurn = midTurn
   \<and> length (allMessages midTurn) = 5"
proof -
  have a: "Some (conversationId foreignError) \<noteq> currentConversationId midTurn"
    by (simp add: foreignError_def midTurn_def fourMessages_def)
  show ?thesis
    using a other_conversation_chunk_ignored [OF a, of observingHandlers exampleContext]
    by (simp add: midTurn_def fourMessages_def)
qed

text \<open>
  C10, as stated, fails for a content object that is present and empty: the guard
  \<^verbatim>\<open>if (chunk.content)\<close> lets it through, and the handler of \<^verbatim>\<open>complete\<close> events finalizes
  the streaming message and clears \<^verbatim>\<open>streamingMessageId\<close> and the waiting flag.
\<close>

theorem empty_content_complete_is_handled:
  "chunk_type emptyComplete = TComplete
   \<and> Some (conversationId emptyComplete) = currentConversationId midTurn
   \<and> chunk_content emptyComplete = Some \<lparr>content_role = ''model'', content_parts = []\<rparr>
   \<and> streamingMessageId midTurn = Some ''a5''
   \<and> streamingMessageId (handleStreamChunk completingHandlers emptyComplete exampleContext midTurn) = None
   \<and> isWaitingForResponse (handleStreamChunk completingHandlers emptyComplete exampleContext midTurn) = False
   \<and> map streaming (allMessages (handleStreamChunk completingHandlers emptyComplete exampleContext midTurn))
       = [None, None, None, None, Some False]
   \<and> handleStreamChunk completingHandlers emptyComplete exampleContext midTurn \<noteq> midTurn"
proof -
  have r: "streamingMessageId (handleStreamChunk completingHandlers emptyComplete exampleContext midTurn) = None"
    by (simp add: handleStreamChunk_def completingHandlers_def observingHandlers_def
        emptyComplete_def exampleContext_def midTurn_def fourMessages_def handleComplete_spec_def
        updateConversationAfterMessage_def truthy_def Let_def)
  have m: "streamingMessageId midTurn = Some ''a5''" by (simp add: midTurn_def)
  have ne: "handleStreamChunk completingHandlers emptyComplete exampleContext midTurn \<noteq> midTurn"
    using r m by auto
  show ?thesis
    using ne
    by (simp add: handleStreamChunk_def completingHandlers_def observingHandlers_def
        emptyComplete_def exampleContext_def midTurn_def fourMessages_def handleComplete_spec_def
        updateConversationAfterMessage_def truthy_def Let_def plainMessage_def)
qed

text \<open>
  With the content present the event goes to its handler, whatever the content holds.
\<close>

lemma present_content_dispatched:
  assumes "Some (conversationId c) = currentConversationId s" and "chunk_content c \<noteq> None"
  shows "chunk_type c = TComplete \<Longrightarrow>
           handleStreamChunk H c ctx s
             = handleComplete H c (ctx_addCheckpoint ctx) (ctx_updateConversationAfterMessage ctx) s"
    and "chunk_type c = TToolIteration \<Longrightarrow>
           handleStreamChunk H c ctx s
             = handleToolIteration H c (ctx_currentModelName ctx) (ctx_addCheckpoint ctx) s"
  using assms by (auto simp add: handleStreamChunk_def)

text \<open>
  C10, amended. A \<^verbatim>\<open>complete\<close> or \<^verbatim>\<open>toolIteration\<close> event whose content field is absent
  leaves the whole store as it is, whatever the handlers would do: no message is
  finalized, \<^verbatim>\<open>streamingMessageId\<close> stays, no checkpoint is appended, no flag changes.
\<close>

theorem absent_content_ignored:
  assumes "chunk_type c = TComplete \<or> chunk_type c = TToolIteration"
    and "chunk_content c = None"
  shows "handleStreamChunk H c ctx s = s"
  using assms by (auto simp add: handleStreamChunk_def)

text \<open>
  A \<^verbatim>\<open>complete\<close> event without content during a turn.
\<close>

theorem absent_content_ignored_witness:
  "chunk_type bareComplete = TComplete
   \<and> chunk_content bareComplete = None
   \<and> Some (conversationId bareComplete) = currentConversationId midTurn
   \<and> handleStreamChunk observingHandlers bareComplete exampleContext midTurn = midTurn
   \<and> streamingMessageId midTurn = Some ''a5''"
proof -
  have a: "chunk_type bareComplete = TComplete \<or> chunk_type bareComplete = TToolIteration"
    by (simp add: bareComplete_def emptyComplete_def)
  have b: "chunk_content bareComplete = None" by (simp add: bareComplete_def)
  show ?thesis
    using b absent_content_ignored [OF a b, of observingHandlers exampleContext midTurn]
    by (simp add: bareComplete_def emptyComplete_def midTurn_def fourMessages_def)
qed

section \<open>Properties of the message actions\<close>

lemma checkpoints_clearCheckpointsFromIndex:
  "checkpoints (clearCheckpointsFromIndex s k) = filter (\<lambda>cp. cp_messageIndex cp < k) (checkpoints s)"
  by (simp add: clearCheckpointsFromIndex_def)

lemma allMessages_clearCheckpointsFromIndex:
  "allMessages (clearCheckpointsFromIndex s k) = allMessages s"
  by (simp add: clearCheckpointsFromIndex_def)

lemma catchDispatch_keeps:
  "allMessages (catchDispatch dc dm err s) = allMessages s"
  "checkpoints (catchDispatch dc dm err s) = checkpoints s"
  by (simp_all add: catchDispatch_def)

text \<open>
  C1, as stated, fails on the length: the placeholder of the new turn is pushed before
  \<^verbatim>\<open>retryFromMessage\<close> returns. Retrying from index 1 of four messages leaves two.
\<close>

theorem retry_leaves_placeholder:
  "truthy (currentConversationId fourMessages)
   \<and> (0::int) \<le> 1
   \<and> 1 < int (length (allMessages fourMessages))
   \<and> length (allMessages (fst (retryFromMessage exampleEnv ''model-x'' fourMessages 1 (\<lambda>s. s)))) = 2
   \<and> length (allMessages (fst (retryFromMessage exampleEnv ''model-x'' fourMessages 1 (\<lambda>s. s)))) \<noteq> 1"
  by (simp add: retryFromMessage_def fourMessages_def truthy_def exampleEnv_def Let_def
      clearCheckpointsFromIndex_def)

text \<open>
  C1, amended. With a current conversation and a valid index \<open>k\<close>, after
  \<^verbatim>\<open>retryFromMessage(k)\<close> the message list is the first \<open>k\<close> messages (of the list as
  \<^verbatim>\<open>cancelStream\<close> left it, when a turn was streaming) followed by one new streaming
  assistant placeholder: its length is \<open>k + 1\<close> when no turn was streaming. No checkpoint
  with message index \<open>k\<close> or more is left.
\<close>

theorem retryFromMessage_truncates_and_appends:
  assumes "truthy (currentConversationId s)"
    and "0 \<le> k" and "k < int (length (allMessages s))"
  shows "allMessages (fst (retryFromMessage env modelName s k cancelStream))
           = take (nat k) (allMessages (if isStreaming s then cancelStream s else s))
             @ [assistantPlaceholder env modelName]
       \<and> (\<not> isStreaming s \<longrightarrow>
            length (allMessages (fst (retryFromMessage env modelName s k cancelStream))) = nat k + 1
          \<and> take (nat k) (allMessages (fst (retryFromMessage env modelName s k cancelStream)))
              = take (nat k) (allMessages s))
       \<and> streaming (last (allMessages (fst (retryFromMessage env modelName s k cancelStream)))) = Some True
       \<and> checkpoints (fst (retryFromMessage env modelName s k cancelStream))
           = filter (\<lambda>cp. cp_messageIndex cp < k)
               (checkpoints (if isStreaming s then cancelStream s else s))
       \<and> (\<forall>cp \<in> set (checkpoints (fst (retryFromMessage env modelName s k cancelStream))).
             cp_messageIndex cp < k)"
proof -
  from assms have ne: "length (allMessages s) \<noteq> 0" by auto
  have msgs: "allMessages (fst (retryFromMessage env modelName s k cancelStream))
           = take (nat k) (allMessages (if isStreaming s then cancelStream s else s))
             @ [assistantPlaceholder env modelName]"
    using assms ne
    by (simp add: retryFromMessage_def Let_def catchDispatch_keeps
        allMessages_clearCheckpointsFromIndex split: option.splits)
  have cps: "checkpoints (fst (retryFromMessage env modelName s k cancelStream))
           = filter (\<lambda>cp. cp_messageIndex cp < k)
               (checkpoints (if isStreaming s then cancelStream s else s))"
    using assms ne
    by (simp add: retryFromMessage_def Let_def catchDispatch_keeps
        checkpoints_clearCheckpointsFromIndex split: option.splits)
  have len: "\<not> isStreaming s \<longrightarrow> length (take (nat k) (allMessages s)) = nat k"
    using assms by auto
  show ?thesis
    unfolding msgs cps using len assms
    by (auto simp add: assistantPlaceholder_def)
qed

text \<open>
  Retrying from index 2 in the middle of a turn.
\<close>

theorem retryFromMessage_truncates_and_appends_witness:
  "truthy (currentConversationId midTurn)
   \<and> (0::int) \<le> 2 \<and> 2 < int (length (allMessages midTurn))
   \<and> map msg_id (allMessages (fst (retryFromMessage exampleEnv ''model-x'' midTurn 2 stopStreaming)))
       = [''m0'', ''m1'', ''a9'']
   \<and> map cp_id (checkpoints (fst (retryFromMessage exampleEnv ''model-x'' midTurn 2 stopStreaming)))
       = [''c0'', ''c1'']"
proof -
  have a: "truthy (currentConversationId midTurn)"
    by (simp add: midTurn_def fourMessages_def truthy_def)
  have b: "(0::int) \<le> 2" by simp
  have c: "2 < int (length (allMessages midTurn))" by (simp add: midTurn_def fourMessages_def)
  show ?thesis
    using a c retryFromMessage_truncates_and_appends [OF a b c, of exampleEnv "''model-x''" stopStreaming]
    by (simp add: midTurn_def fourMessages_def stopStreaming_def assistantPlaceholder_def
        exampleEnv_def plainMessage_def checkpointAt_def)
qed


text \<open>
  C2, as stated, fails on the length: the list is cut after the edited message and the
  placeholder is pushed, so four messages edited at index 1 leave three, not two.
\<close>

theorem edit_on_four_messages_leaves_three:
  "length (allMessages fourMessages) = 4
   \<and> fst (editAndRetry exampleEnv ''model-x'' fourMessages 1 ''new text'' None (\<lambda>s. s)) = Returned
   \<and> length (allMessages (fst (snd
         (editAndRetry exampleEnv ''model-x'' fourMessages 1 ''new text'' None (\<lambda>s. s))))) = 3
   \<and> length (allMessages (fst (snd
         (editAndRetry exampleEnv ''model-x'' fourMessages 1 ''new text'' None (\<lambda>s. s))))) \<noteq> 2"
  by (simp add: editAndRetry_def fourMessages_def truthy_def exampleEnv_def Let_def
      clearCheckpointsFromIndex_def trim_def is_space_def noAttachments_def)

lemma trim_new_text: "trim ''new text'' \<noteq> []"
  by (simp add: trim_def is_space_def)

text \<open>
  C2, amended. On a list of four messages with a current conversation,
  \<^verbatim>\<open>editAndRetry(1, "new text")\<close> returns with a list of length 3: message 0 as it was,
  message 1 with the new content, parts and attachments, and a new streaming placeholder
  at index 2. No checkpoint with message index 1 or more is left. (When a turn was
  streaming the messages are those that \<^verbatim>\<open>cancelStream\<close> left, which must still reach
  index 1.)
\<close>

theorem editAndRetry_on_four_messages:
  assumes "truthy (currentConversationId s)"
    and "length (allMessages s) = 4"
    and "isStreaming s \<longrightarrow> 1 < length (allMessages (cancelStream s))"
  shows "fst (editAndRetry env modelName s 1 ''new text'' atts cancelStream) = Returned
       \<and> allMessages (fst (snd (editAndRetry env modelName s 1 ''new text'' atts cancelStream)))
           = [allMessages (if isStreaming s then cancelStream s else s) ! 0,
              (allMessages (if isStreaming s then cancelStream s else s) ! 1)
                \<lparr>content := ''new text'', parts := Some [\<lparr>part_text = ''new text''\<rparr>],
                 attachments := attachmentsOrUndefined atts\<rparr>,
              assistantPlaceholder env modelName]
       \<and> length (allMessages (fst (snd (editAndRetry env modelName s 1 ''new text'' atts cancelStream)))) = 3
       \<and> streaming (allMessages (fst (snd (editAndRetry env modelName s 1 ''new text'' atts cancelStream))) ! 2)
           = Some True
       \<and> checkpoints (fst (snd (editAndRetry env modelName s 1 ''new text'' atts cancelStream)))
           = filter (\<lambda>cp. cp_messageIndex cp < 1)
               (checkpoints (if isStreaming s then cancelStream s else s))
       \<and> (\<forall>cp \<in> set (checkpoints (fst (snd (editAndRetry env modelName s 1 ''new text'' atts cancelStream)))).
             cp_messageIndex cp < 1)"
proof -
  define s1 where "s1 = (if isStreaming s then cancelStream s else s)"
  define edited where "edited = (allMessages s1 ! 1)
        \<lparr>content := ''new text'', parts := Some [\<lparr>part_text = ''new text''\<rparr>],
         attachments := attachmentsOrUndefined atts\<rparr>"
  define s7 where "s7 = (clearCheckpointsFromIndex
        (s1\<lparr>error := None, isLoading := True, isStreaming := True, isWaitingForResponse := True,
            allMessages := [allMessages s1 ! 0, edited]\<rparr>) 1)
        \<lparr>toolCallBuffer := [], inToolCall := None,
         allMessages := [allMessages s1 ! 0, edited, assistantPlaceholder env modelName],
         streamingMessageId := Some (assistantMessageId env)\<rparr>"
  from assms have long: "1 < length (allMessages s1)" by (auto simp: s1_def)
  then obtain m0 m1 rest where ms: "allMessages s1 = m0 # m1 # rest"
    by (cases "allMessages s1"; cases "tl (allMessages s1)") auto
  have guard: "\<not> ((trim ''new text'' = [] \<and> noAttachments atts) \<or> \<not> truthy (currentConversationId s))"
    using assms trim_new_text by simp
  have run: "editAndRetry env modelName s 1 ''new text'' atts cancelStream =
      (Returned,
       (case dispatchRejects env of
          None \<Rightarrow> s7
        | Some err \<Rightarrow> catchDispatch ''EDIT_RETRY_ERROR'' ''Edit and retry failed'' err s7)
       \<lparr>isLoading := False\<rparr>,
       [EditAndRetryStream (currentConversationId s7) 1 ''new text'' (attachmentData atts) (configId s7)])"
    using guard assms(2) ms
    by (simp add: editAndRetry_def Let_def s1_def [symmetric] s7_def edited_def
        clearCheckpointsFromIndex_def split: option.splits)
  have s7m: "allMessages s7 = [allMessages s1 ! 0, edited, assistantPlaceholder env modelName]"
    by (simp add: s7_def)
  have s7c: "checkpoints s7 = filter (\<lambda>cp. cp_messageIndex cp < 1) (checkpoints s1)"
    by (simp add: s7_def clearCheckpointsFromIndex_def)
  show ?thesis
    unfolding run s1_def [symmetric] edited_def [symmetric]
    by (cases "dispatchRejects env")
       (simp_all add: catchDispatch_keeps s7m s7c assistantPlaceholder_def)
qed

text \<open>
  The scenario on an idle store.
\<close>

theorem editAndRetry_on_four_messages_witness:
  "truthy (currentConversationId fourMessages)
   \<and> length (allMessages fourMessages) = 4
   \<and> map msg_id (allMessages (fst (snd
         (editAndRetry exampleEnv ''model-x'' fourMessages 1 ''new text'' None stopStreaming))))
       = [''m0'', ''m1'', ''a9'']
   \<and> map content (allMessages (fst (snd
         (editAndRetry exampleEnv ''model-x'' fourMessages 1 ''new text'' None stopStreaming))))
       = [''hi'', ''new text'', []]
   \<and> map cp_id (checkpoints (fst (snd
         (editAndRetry exampleEnv ''model-x'' fourMessages 1 ''new text'' None stopStreaming))))
       = [''c0'']"
proof -
  have a: "truthy (currentConversationId fourMessages)"
    by (simp add: fourMessages_def truthy_def)
  have b: "length (allMessages fourMessages) = 4" by (simp add: fourMessages_def)
  have c: "isStreaming fourMessages \<longrightarrow> 1 < length (allMessages (stopStreaming fourMessages))"
    by (simp add: fourMessages_def)
  show ?thesis
    using a b editAndRetry_on_four_messages
        [where s = fourMessages and cancelStream = stopStreaming and env = exampleEnv
           and modelName = "''model-x''" and atts = None, OF a b c]
    by (simp add: fourMessages_def assistantPlaceholder_def exampleEnv_def plainMessage_def
        checkpointAt_def)
qed

text \<open>
  C7. With a current conversation and a valid index, \<^verbatim>\<open>deleteMessage(index)\<close> cuts the
  message list at the index and removes the checkpoints from the index on exactly when
  the backend answers with success. When it answers without success the store is the one
  \<^verbatim>\<open>cancelStream\<close> left (the store itself when no turn was streaming); when the request
  fails, that store with the error slot set. In both cases the message list and the
  checkpoint list are unchanged.
\<close>

theorem deleteMessage_only_on_success:
  assumes "truthy (currentConversationId s)"
    and "0 \<le> k" and "k < int (length (allMessages s))"
  shows "(response = Inr True \<longrightarrow>
            allMessages (fst (deleteMessage s k cancelStream response))
              = take (nat k) (allMessages (if isStreaming s then cancelStream s else s))
          \<and> checkpoints (fst (deleteMessage s k cancelStream response))
              = filter (\<lambda>cp. cp_messageIndex cp < k)
                  (checkpoints (if isStreaming s then cancelStream s else s))
          \<and> error (fst (deleteMessage s k cancelStream response))
              = error (if isStreaming s then cancelStream s else s))
       \<and> (response = Inr False \<longrightarrow>
            fst (deleteMessage s k cancelStream response)
              = (if isStreaming s then cancelStream s else s))
       \<and> (\<forall>err. response = Inl err \<longrightarrow>
            fst (deleteMessage s k cancelStream response)
              = (if isStreaming s then cancelStream s else s)
                \<lparr>error := Some \<lparr>err_code = orElse (thrown_code err) ''DELETE_ERROR'',
                                 err_message = orElse (thrown_message err) ''Delete failed''\<rparr>\<rparr>)
       \<and> (response \<noteq> Inr True \<longrightarrow>
            allMessages (fst (deleteMessage s k cancelStream response))
              = allMessages (if isStreaming s then cancelStream s else s)
          \<and> checkpoints (fst (deleteMessage s k cancelStream response))
              = checkpoints (if isStreaming s then cancelStream s else s))
       \<and> (\<not> isStreaming s \<and> response \<noteq> Inr True \<longrightarrow>
            allMessages (fst (deleteMessage s k cancelStream response)) = allMessages s
          \<and> checkpoints (fst (deleteMessage s k cancelStream response)) = checkpoints s)"
proof -
  define s1 where "s1 = (if isStreaming s then cancelStream s else s)"
  have run: "fst (deleteMessage s k cancelStream response) =
      (case response of
         Inr success \<Rightarrow>
           if success
           then clearCheckpointsFromIndex (s1\<lparr>allMessages := take (nat k) (allMessages s1)\<rparr>) k
           else s1
       | Inl err \<Rightarrow>
           s1\<lparr>error := Some \<lparr>err_code = orElse (thrown_code err) ''DELETE_ERROR'',
                              err_message = orElse (thrown_message err) ''Delete failed''\<rparr>\<rparr>)"
    using assms
    by (simp add: deleteMessage_def Let_def s1_def split: sum.splits)
  have unchanged: "\<not> isStreaming s \<Longrightarrow> s1 = s" by (simp add: s1_def)
  show ?thesis
    unfolding run s1_def [symmetric]
    by (cases response) (auto simp add: clearCheckpointsFromIndex_def unchanged)
qed

text \<open>
  The three outcomes of the backend on an idle store of four messages.
\<close>

theorem deleteMessage_only_on_success_witness:
  "truthy (currentConversationId fourMessages)
   \<and> (0::int) \<le> 2 \<and> 2 < int (length (allMessages fourMessages))
   \<and> map msg_id (allMessages (fst (deleteMessage fourMessages 2 stopStreaming (Inr True))))
       = [''m0'', ''m1'']
   \<and> map cp_id (checkpoints (fst (deleteMessage fourMessages 2 stopStreaming (Inr True))))
       = [''c0'', ''c1'']
   \<and> fst (deleteMessage fourMessages 2 stopStreaming (Inr False)) = fourMessages
   \<and> fst (deleteMessage fourMessages 2 stopStreaming
            (Inl \<lparr>thrown_code = None, thrown_message = Some ''disk full''\<rparr>))
       = fourMessages\<lparr>error := Some \<lparr>err_code = ''DELETE_ERROR'', err_message = ''disk full''\<rparr>\<rparr>"
proof -
  have a: "truthy (currentConversationId fourMessages)"
    by (simp add: fourMessages_def truthy_def)
  have b: "(0::int) \<le> 2" by simp
  have c: "2 < int (length (allMessages fourMessages))" by (simp add: fourMessages_def)
  have ns: "\<not> isStreaming fourMessages" by (simp add: fourMessages_def)
  have ok: "map msg_id (allMessages (fst (deleteMessage fourMessages 2 stopStreaming (Inr True))))
       = [''m0'', ''m1'']
     \<and> map cp_id (checkpoints (fst (deleteMessage fourMessages 2 stopStreaming (Inr True))))
       = [''c0'', ''c1'']"
    using ns deleteMessage_only_on_success [OF a b c, of "Inr True" stopStreaming]
    by (simp add: fourMessages_def plainMessage_def checkpointAt_def)
  have no: "fst (deleteMessage fourMessages 2 stopStreaming (Inr False)) = fourMessages"
    using ns deleteMessage_only_on_success [OF a b c, of "Inr False" stopStreaming]
    by simp
  have err: "fst (deleteMessage fourMessages 2 stopStreaming
            (Inl \<lparr>thrown_code = None, thrown_message = Some ''disk full''\<rparr>))
       = fourMessages\<lparr>error := Some \<lparr>err_code = ''DELETE_ERROR'', err_message = ''disk full''\<rparr>\<rparr>"
    using ns deleteMessage_only_on_success
      [OF a b c, of "Inl \<lparr>thrown_code = None, thrown_message = Some ''disk full''\<rparr>" stopStreaming]
    by (simp add: orElse_def)
  show ?thesis using a c ok no err by simp
qed

text \<open>
  C8. When \<^verbatim>\<open>sendMessage\<close> gets as far as the dispatch and the dispatch rejects, the
  streaming, waiting and loading flags are false again, the error slot holds the code
  and message of the rejection (\<^verbatim>\<open>SEND_ERROR\<close> and a default message when it has none),
  and the user message and the streaming placeholder are still the last two messages.
  The request was sent.
\<close>

theorem sendMessage_dispatch_failure:
  assumes "\<not> (trim messageText = [] \<and> noAttachments atts)"
    and "\<not> isWaitingForResponse s"
    and "truthy (currentConversationId s) \<or> createRejects env = None"
    and "dispatchRejects env = Some err"
  shows "isStreaming (fst (sendMessage env modelName s messageText atts)) = False
       \<and> isWaitingForResponse (fst (sendMessage env modelName s messageText atts)) = False
       \<and> isLoading (fst (sendMessage env modelName s messageText atts)) = False
       \<and> error (fst (sendMessage env modelName s messageText atts))
           = Some \<lparr>err_code = orElse (thrown_code err) ''SEND_ERROR'',
                   err_message = orElse (thrown_message err) ''Failed to send message''\<rparr>
       \<and> allMessages (fst (sendMessage env modelName s messageText atts))
           = allMessages s
             @ [\<lparr>msg_id = userMessageId env, role = User, content = messageText,
                 timestamp = now env, attachments = attachmentsOrUndefined atts,
                 streaming = None, parts = None, metadata = None, isFunctionResponse = None\<rparr>,
                assistantPlaceholder env modelName]
       \<and> streaming (last (allMessages (fst (sendMessage env modelName s messageText atts)))) = Some True
       \<and> ChatStream (if truthy (currentConversationId s) then currentConversationId s
                     else Some (''conv_'' @ convIdSuffix env))
            (configId s) messageText (attachmentData atts)
           \<in> set (snd (sendMessage env modelName s messageText atts))"
proof (cases "truthy (currentConversationId s)")
  case True
  then obtain cid where cid: "currentConversationId s = Some cid"
    by (cases "currentConversationId s") (auto simp: truthy_def)
  show ?thesis
    using assms True cid
    by (simp add: sendMessage_def sendMessage_try_def sendMessage_dispatch_def Let_def
        catchDispatch_def assistantPlaceholder_def)
next
  case False
  with assms have cr: "createRejects env = None" by simp
  show ?thesis
    using assms False cr
    by (simp add: sendMessage_def sendMessage_try_def sendMessage_dispatch_def Let_def
        catchDispatch_def assistantPlaceholder_def createAndPersistConversation_def truthy_def)
qed

text \<open>
  A first message, with no conversation yet, and a transport that rejects.
\<close>

theorem sendMessage_dispatch_failure_witness:
  "isWaitingForResponse emptyStore = False
   \<and> dispatchRejects rejectingEnv = Some \<lparr>thrown_code = None, thrown_message = Some ''offline''\<rparr>
   \<and> isStreaming (fst (sendMessage rejectingEnv ''model-x'' emptyStore ''Hello'' None)) = False
   \<and> isWaitingForResponse (fst (sendMessage rejectingEnv ''model-x'' emptyStore ''Hello'' None)) = False
   \<and> error (fst (sendMessage rejectingEnv ''model-x'' emptyStore ''Hello'' None))
       = Some \<lparr>err_code = ''SEND_ERROR'', err_message = ''offline''\<rparr>
   \<and> map msg_id (allMessages (fst (sendMessage rejectingEnv ''model-x'' emptyStore ''Hello'' None)))
       = [''u9'', ''a9'']
   \<and> map role (allMessages (fst (sendMessage rejectingEnv ''model-x'' emptyStore ''Hello'' None)))
       = [User, Assistant]"
proof -
  have a: "\<not> (trim ''Hello'' = [] \<and> noAttachments None)" by (simp add: trim_def is_space_def)
  have b: "\<not> isWaitingForResponse emptyStore" by (simp add: emptyStore_def fourMessages_def)
  have c: "truthy (currentConversationId emptyStore) \<or> createRejects rejectingEnv = None"
    by (simp add: rejectingEnv_def exampleEnv_def)
  have d: "dispatchRejects rejectingEnv = Some \<lparr>thrown_code = None, thrown_message = Some ''offline''\<rparr>"
    by (simp add: rejectingEnv_def)
  show ?thesis
    using b d sendMessage_dispatch_failure [OF a b c d, of "''model-x''"]
    by (simp add: orElse_def emptyStore_def fourMessages_def rejectingEnv_def exampleEnv_def
        assistantPlaceholder_def)
qed

text \<open>
  C9, as stated, fails while a response is awaited: the error slot is cleared before the
  waiting flag is tested, so a store that shows an error is changed.
\<close>

theorem sendMessage_while_waiting_clears_error:
  "isWaitingForResponse waitingWithError = True
   \<and> error waitingWithError = Some \<lparr>err_code = ''LOAD_ERROR'', err_message = ''Failed to load history''\<rparr>
   \<and> error (fst (sendMessage exampleEnv ''model-x'' waitingWithError ''again'' None)) = None
   \<and> fst (sendMessage exampleEnv ''model-x'' waitingWithError ''again'' None) \<noteq> waitingWithError"
proof -
  have e: "error (fst (sendMessage exampleEnv ''model-x'' waitingWithError ''again'' None)) = None"
    by (simp add: sendMessage_def waitingWithError_def midTurn_def trim_def is_space_def)
  have w: "error waitingWithError = Some \<lparr>err_code = ''LOAD_ERROR'', err_message = ''Failed to load history''\<rparr>"
    by (simp add: waitingWithError_def)
  have ne: "fst (sendMessage exampleEnv ''model-x'' waitingWithError ''again'' None) \<noteq> waitingWithError"
    using e w by auto
  show ?thesis using e w ne by (simp add: waitingWithError_def midTurn_def)
qed

text \<open>
  C9, amended. \<^verbatim>\<open>sendMessage\<close> changes nothing and sends nothing when the text is empty
  or white space and there are no attachments. When there is something to send and a
  response is already awaited, it appends no message, changes no flag and sends nothing,
  and clears the error slot: it changes nothing exactly when the slot was empty.
\<close>

theorem sendMessage_rejections:
  "(trim messageText = [] \<and> noAttachments atts \<longrightarrow>
      sendMessage env modelName s messageText atts = (s, []))
   \<and> (isWaitingForResponse s \<and> \<not> (trim messageText = [] \<and> noAttachments atts) \<longrightarrow>
      sendMessage env modelName s messageText atts = (s\<lparr>error := None\<rparr>, []))
   \<and> (isWaitingForResponse s \<and> error s = None \<longrightarrow>
      sendMessage env modelName s messageText atts = (s, []))"
  by (simp add: sendMessage_def)

text \<open>
  White space during a turn, and a second message during a turn, with and without an
  error on display.
\<close>

theorem sendMessage_rejections_witness:
  "trim [CHR 0x20, CHR 0x09, CHR 0x0A] = []
   \<and> noAttachments (Some [])
   \<and> sendMessage exampleEnv ''model-x'' waitingWithError [CHR 0x20, CHR 0x09, CHR 0x0A] (Some [])
       = (waitingWithError, [])
   \<and> isWaitingForResponse waitingWithError
   \<and> trim ''again'' = ''again''
   \<and> sendMessage exampleEnv ''model-x'' waitingWithError ''again'' None
       = (waitingWithError\<lparr>error := None\<rparr>, [])
   \<and> isWaitingForResponse midTurn
   \<and> error midTurn = None
   \<and> sendMessage exampleEnv ''model-x'' midTurn ''again'' None = (midTurn, [])"
proof -
  have t: "trim [CHR 0x20, CHR 0x09, CHR 0x0A] = []" by (simp add: trim_def is_space_def)
  have n: "noAttachments (Some [])" by (simp add: noAttachments_def)
  have w: "isWaitingForResponse waitingWithError" by (simp add: waitingWithError_def midTurn_def)
  have g: "trim ''again'' = ''again''" by (simp add: trim_def is_space_def)
  have m: "isWaitingForResponse midTurn" "error midTurn = None"
    by (simp_all add: midTurn_def fourMessages_def)
  show ?thesis
    using t n w g m
      sendMessage_rejections [of "[CHR 0x20, CHR 0x09, CHR 0x0A]" "Some []" exampleEnv "''model-x''" waitingWithError]
      sendMessage_rejections [of "''again''" None exampleEnv "''model-x''" waitingWithError]
      sendMessage_rejections [of "''again''" None exampleEnv "''model-x''" midTurn]
    by simp
qed

end
